theory Spec2Isabelle
  imports Main "HOL-Library.Char_ord" "HOL-Library.List_Lexorder" "HOL-Library.Sublist"
begin

section \<open>YC Radar: change detection and delivery reconciliation\<close>

text \<open>
  A shallow embedding of \<^verbatim>\<open>src/yc_radar.py\<close>. The program polls a remote index, compares
  what it finds with a persisted set of known ids, and posts one webhook per new record,
  keeping the records whose delivery failed in a pending file.

  Everything outside the process is explicit. The two files of the data directory are
  fields of a \<open>world\<close>; the remote index, the webhook sink and the wall clock are oracles
  of an \<open>env\<close>, each indexed by the number of effects performed so far, so that the
  remote side may answer every request differently. Exceptions are values of a sum type.
  Logging and printing are not modelled. A run, below, starts where \<^verbatim>\<open>main\<close> has parsed
  its arguments and configured logging (line 383): a process that ends inside
  \<^verbatim>\<open>load_env\<close>, \<^verbatim>\<open>parse_args\<close> or \<^verbatim>\<open>logging.basicConfig\<close> has not begun one.
\<close>

subsection \<open>JSON values and hits\<close>

text \<open>
  The scalar JSON values. A hit is a JSON object; only scalar fields are modelled (the
  fields the control flow depends on, \<^verbatim>\<open>objectID\<close>, \<^verbatim>\<open>id\<close> and \<^verbatim>\<open>launched_at\<close>, are
  integers or strings in the index).
\<close>

datatype jval = JNull | JBool bool | JInt int | JStr string

type_synonym hit = "(string \<times> jval) list"

text \<open>\<^verbatim>\<open>d.get(k)\<close>: the value stored under the key, \<^verbatim>\<open>None\<close> when the key is missing.\<close>

definition get :: "hit \<Rightarrow> string \<Rightarrow> jval" where
  "get d k = (case map_of d k of None \<Rightarrow> JNull | Some v \<Rightarrow> v)"

text \<open>Python truthiness, and \<^verbatim>\<open>a or b\<close>, which yields \<^verbatim>\<open>a\<close> when it is truthy.\<close>

fun truthy :: "jval \<Rightarrow> bool" where
  "truthy JNull = False"
| "truthy (JBool b) = b"
| "truthy (JInt n) = (n \<noteq> 0)"
| "truthy (JStr s) = (s \<noteq> [])"

definition py_or :: "jval \<Rightarrow> jval \<Rightarrow> jval" where
  "py_or a b = (if truthy a then a else b)"

text \<open>\<^verbatim>\<open>str(n)\<close> for a Python integer: decimal digits, with a minus sign when negative.\<close>

definition digit_char :: "nat \<Rightarrow> char" where
  "digit_char d = ''0123456789'' ! d"

fun digits :: "nat \<Rightarrow> string" where
  "digits n = (if n < 10 then [digit_char n] else digits (n div 10) @ [digit_char (n mod 10)])"

declare digits.simps [simp del]

definition str_int :: "int \<Rightarrow> string" where
  "str_int n = (if n < 0 then CHR ''-'' # digits (nat (- n)) else digits (nat n))"

fun py_str :: "jval \<Rightarrow> string" where
  "py_str JNull = ''None''"
| "py_str (JBool b) = (if b then ''True'' else ''False'')"
| "py_str (JInt n) = str_int n"
| "py_str (JStr s) = s"

text \<open>\<^verbatim>\<open>hit_id\<close>: \<^verbatim>\<open>str(hit.get("objectID") or hit.get("id") or "")\<close>.\<close>

definition hit_id :: "hit \<Rightarrow> string" where
  "hit_id h = py_str (py_or (py_or (get h ''objectID'') (get h ''id'')) (JStr []))"

subsection \<open>The world outside the process\<close>

text \<open>
  A persisted file is absent, whole (it parses to a value), or torn: it exists but does
  not hold a complete JSON document, which is what \<^verbatim>\<open>open(path, "w")\<close> leaves until the
  dump has finished.
\<close>

datatype 'a persisted = Absent | Torn | Whole 'a

text \<open>
  The state file as \<^verbatim>\<open>json.load\<close> returns it. Every key may be missing
  (\<^verbatim>\<open>state.get(key, default)\<close>), and the known ids are arbitrary JSON scalars that
  \<^verbatim>\<open>detect_new\<close> passes through \<^verbatim>\<open>str\<close>. Instants are microseconds since the epoch,
  negative before it; \<^verbatim>\<open>last_run_at\<close> holds the instant itself instead of its ISO-8601
  rendering.
\<close>

record state_json =
  last_run_at :: "int option"
  last_run_timestamp :: "int option"
  total_count :: "int option"
  known_ids :: "jval list option"
  version :: "nat option"

text \<open>A response of the index: the three keys the program reads, each possibly missing.
  \<open>facet_batch\<close> is \<^verbatim>\<open>result["facets"]["batch"]\<close>, missing when either key is.\<close>

record response =
  nbHits :: "int option"
  hits :: "hit list option"
  facet_batch :: "(string \<times> int) list option"

datatype exc = RequestException | JSONDecodeError | AttributeError | OverflowError | TypeError

datatype event =
    AlgoliaPost string string
  | WebhookPost string hit
  | Sleep nat

text \<open>
  \<open>AlgoliaPost index params\<close> and \<open>WebhookPost url hit\<close> are single HTTP requests;
  \<open>Sleep ms\<close> is a \<^verbatim>\<open>time.sleep\<close>, in milliseconds.
\<close>

record world =
  state_file :: "state_json persisted"
  pending_file :: "hit list persisted"
  trace :: "event list"

text \<open>
  The oracles. \<open>algolia n index params\<close> is the parsed body of the request sent when \<open>n\<close>
  effects have happened, or \<open>None\<close> when \<^verbatim>\<open>requests\<close> raises a \<^verbatim>\<open>RequestException\<close>
  (connection error, HTTP error status, invalid JSON body). \<open>webhook n url hit\<close> tells
  whether the POST of the payload built from \<open>hit\<close> succeeds; the payload is a function of
  the hit and the clock, so the hit stands for it. \<open>now n\<close> is the wall clock, an instant
  that \<^verbatim>\<open>datetime\<close> represents (years 1 to 9999).
\<close>

record env =
  algolia :: "nat \<Rightarrow> string \<Rightarrow> string \<Rightarrow> response option"
  webhook :: "nat \<Rightarrow> string \<Rightarrow> hit \<Rightarrow> bool"
  now :: "nat \<Rightarrow> int"

definition emit :: "event \<Rightarrow> world \<Rightarrow> world" where
  "emit ev w = w\<lparr>trace := trace w @ [ev]\<rparr>"

definition INDEX_PRODUCTION :: string where
  "INDEX_PRODUCTION = ''YCCompany_production''"

definition INDEX_BY_LAUNCH :: string where
  "INDEX_BY_LAUNCH = ''YCCompany_By_Launch_Date_production''"

definition STATE_VERSION :: nat where
  "STATE_VERSION = 1"

subsection \<open>Algolia helpers\<close>

text \<open>
  In the query strings, \<open>CHR 0x22\<close> is the double quote of the Python literals
  \<^verbatim>\<open>["launched_at>..."]\<close> and \<^verbatim>\<open>["batch:..."]\<close>.
\<close>

text \<open>
  \<^verbatim>\<open>algolia_query\<close>: the loop over \<^verbatim>\<open>range(1, max_retries + 1)\<close>. A failed attempt that
  is not the last sleeps \<^verbatim>\<open>2 ** attempt\<close> seconds; the last one re-raises. If the range
  runs out (only when \<^verbatim>\<open>max_retries\<close> is 0) Python returns \<^verbatim>\<open>None\<close>, on which every
  caller's \<^verbatim>\<open>result.get\<close> raises \<^verbatim>\<open>AttributeError\<close>.
\<close>

fun algolia_attempts ::
  "env \<Rightarrow> string \<Rightarrow> string \<Rightarrow> nat \<Rightarrow> nat list \<Rightarrow> world \<Rightarrow> (exc + response) \<times> world" where
  "algolia_attempts e index params max_retries [] w = (Inl AttributeError, w)"
| "algolia_attempts e index params max_retries (attempt # rest) w =
     (case algolia e (length (trace w)) index params of
        Some r \<Rightarrow> (Inr r, emit (AlgoliaPost index params) w)
      | None \<Rightarrow>
          if attempt = max_retries then (Inl RequestException, emit (AlgoliaPost index params) w)
          else algolia_attempts e index params max_retries rest
                 (emit (Sleep (1000 * 2 ^ attempt)) (emit (AlgoliaPost index params) w)))"

definition algolia_query :: "env \<Rightarrow> string \<Rightarrow> string \<Rightarrow> world \<Rightarrow> (exc + response) \<times> world" where
  "algolia_query e index params w = algolia_attempts e index params 3 [1 ..< 3 + 1] w"

definition fetch_count :: "env \<Rightarrow> world \<Rightarrow> (exc + int) \<times> world" where
  "fetch_count e w =
     (case algolia_query e INDEX_PRODUCTION ''hitsPerPage=0&facets=batch'' w of
        (Inl x, w1) \<Rightarrow> (Inl x, w1)
      | (Inr result, w1) \<Rightarrow> (Inr (case nbHits result of None \<Rightarrow> 0 | Some n \<Rightarrow> n), w1))"

definition fetch_since :: "env \<Rightarrow> int \<Rightarrow> world \<Rightarrow> (exc + hit list) \<times> world" where
  "fetch_since e timestamp w =
     (case algolia_query e INDEX_BY_LAUNCH
             (''hitsPerPage=1000&numericFilters=['' @ [CHR 0x22] @ ''launched_at>'' @ str_int timestamp
                @ [CHR 0x22] @ '']'') w of
        (Inl x, w1) \<Rightarrow> (Inl x, w1)
      | (Inr result, w1) \<Rightarrow> (Inr (case hits result of None \<Rightarrow> [] | Some hs \<Rightarrow> hs), w1))"

text \<open>\<^verbatim>\<open>sorted(batches.keys())\<close>: the keys of a dictionary are distinct.\<close>

definition fetch_batch_names :: "env \<Rightarrow> world \<Rightarrow> (exc + string list) \<times> world" where
  "fetch_batch_names e w =
     (case algolia_query e INDEX_PRODUCTION ''hitsPerPage=0&facets=batch'' w of
        (Inl x, w1) \<Rightarrow> (Inl x, w1)
      | (Inr result, w1) \<Rightarrow>
          (Inr (sort (remdups (map fst (case facet_batch result of None \<Rightarrow> [] | Some bs \<Rightarrow> bs)))),
           w1))"

text \<open>The loop of \<^verbatim>\<open>fetch_all_companies\<close>, with \<^verbatim>\<open>all_hits\<close> as the accumulator.\<close>

fun fetch_batches :: "env \<Rightarrow> string list \<Rightarrow> hit list \<Rightarrow> world \<Rightarrow> (exc + hit list) \<times> world" where
  "fetch_batches e [] all_hits w = (Inr all_hits, w)"
| "fetch_batches e (batch # rest) all_hits w =
     (case algolia_query e INDEX_PRODUCTION
             (''hitsPerPage=1000&facetFilters=['' @ [CHR 0x22] @ ''batch:'' @ batch @ [CHR 0x22] @ '']'') w of
        (Inl x, w1) \<Rightarrow> (Inl x, w1)
      | (Inr result, w1) \<Rightarrow>
          fetch_batches e rest (all_hits @ (case hits result of None \<Rightarrow> [] | Some hs \<Rightarrow> hs))
            (emit (Sleep 100) w1))"

definition fetch_all_companies :: "env \<Rightarrow> world \<Rightarrow> (exc + hit list) \<times> world" where
  "fetch_all_companies e w =
     (case fetch_batch_names e w of
        (Inl x, w1) \<Rightarrow> (Inl x, w1)
      | (Inr batches, w1) \<Rightarrow> fetch_batches e batches [] w1)"

subsection \<open>State management\<close>

definition load_state :: "world \<Rightarrow> exc + state_json option" where
  "load_state w =
     (case state_file w of
        Absent \<Rightarrow> Inr None
      | Torn \<Rightarrow> Inl JSONDecodeError
      | Whole state \<Rightarrow> Inr (Some state))"

text \<open>
  \<^verbatim>\<open>save_state\<close> opens the state file for writing, which truncates it, and then dumps
  the record into it. The two steps are kept apart: a process that dies between them
  leaves the file as the first step made it. The ids are the list \<^verbatim>\<open>list(set)\<close> of the
  callers, so \<^verbatim>\<open>sorted(known_ids)\<close> is the sorted list of a set.
\<close>

text \<open>
  \<^verbatim>\<open>int(now.timestamp())\<close>. For an aware datetime \<^verbatim>\<open>timestamp()\<close> is the true division of
  the microseconds since the epoch by \<^verbatim>\<open>10**6\<close>, that is the double nearest to the quotient
  (ties to even), and \<^verbatim>\<open>int\<close> truncates it toward zero. \<open>float_seconds\<close> computes the
  integer part of that double for a non-negative count of microseconds: a double in the
  binade \<open>2 ^ e\<close> is a multiple of \<open>2 ^ (e - 52)\<close>.
\<close>

fun bit_length :: "nat \<Rightarrow> nat" where
  "bit_length n = (if n = 0 then 0 else Suc (bit_length (n div 2)))"

declare bit_length.simps [simp del]

definition round_half_even :: "nat \<Rightarrow> nat \<Rightarrow> nat" where
  "round_half_even num den =
     (let q = num div den; r = num mod den
      in if 2 * r < den then q
         else if den < 2 * r then q + 1
         else if even q then q else q + 1)"

definition float_seconds :: "nat \<Rightarrow> nat" where
  "float_seconds micros =
     (let whole = micros div 1000000
      in if whole = 0 then 0
         else let e = bit_length whole - 1
              in if e \<le> 52
                 then round_half_even (micros * 2 ^ (52 - e)) 1000000 div 2 ^ (52 - e)
                 else round_half_even micros (1000000 * 2 ^ (e - 52)) * 2 ^ (e - 52))"

definition unix_seconds :: "int \<Rightarrow> int" where
  "unix_seconds t = (if 0 \<le> t then int (float_seconds (nat t)) else - int (float_seconds (nat (- t))))"

text \<open>
  The instants that \<^verbatim>\<open>datetime\<close> represents, from the first microsecond of year 1 to
  the last of year 9999. Outside them \<^verbatim>\<open>datetime.now\<close> itself raises, which the model
  does not follow: the statement about the saved record is made for these instants.
\<close>

definition representable :: "int \<Rightarrow> bool" where
  "representable t \<longleftrightarrow> - 62135596800000000 \<le> t \<and> t \<le> 253402300799999999"

definition open_state_w :: "world \<Rightarrow> world" where
  "open_state_w w = w\<lparr>state_file := Torn\<rparr>"

definition dump_state :: "state_json \<Rightarrow> world \<Rightarrow> world" where
  "dump_state state w = w\<lparr>state_file := Whole state\<rparr>"

definition save_state_steps :: "env \<Rightarrow> string set \<Rightarrow> int \<Rightarrow> world \<Rightarrow> (world \<Rightarrow> world) list" where
  "save_state_steps e ids count w =
     (let t = now e (length (trace w));
          state = \<lparr> last_run_at = Some t,
                    last_run_timestamp = Some (unix_seconds t),
                    total_count = Some count,
                    known_ids = Some (map JStr (sorted_list_of_set ids)),
                    version = Some STATE_VERSION \<rparr>
      in [open_state_w, dump_state state])"

definition run_steps :: "(world \<Rightarrow> world) list \<Rightarrow> world \<Rightarrow> world" where
  "run_steps steps w = fold (\<lambda>step. step) steps w"

definition save_state :: "env \<Rightarrow> string set \<Rightarrow> int \<Rightarrow> world \<Rightarrow> world" where
  "save_state e ids count w = run_steps (save_state_steps e ids count w) w"

subsection \<open>Pending webhooks\<close>

text \<open>The pending file is written in one step: no statement below looks inside that
  write.\<close>

definition load_pending :: "world \<Rightarrow> exc + hit list option" where
  "load_pending w =
     (case pending_file w of
        Absent \<Rightarrow> Inr None
      | Torn \<Rightarrow> Inl JSONDecodeError
      | Whole payload \<Rightarrow> Inr (Some payload))"

definition save_pending :: "hit list \<Rightarrow> world \<Rightarrow> world" where
  "save_pending payload w = w\<lparr>pending_file := Whole payload\<rparr>"

definition clear_pending :: "world \<Rightarrow> world" where
  "clear_pending w = w\<lparr>pending_file := Absent\<rparr>"

subsection \<open>Webhook delivery\<close>

text \<open>
  \<^verbatim>\<open>send_webhook\<close>: the same loop as \<^verbatim>\<open>algolia_query\<close>, but the last failure returns
  \<^verbatim>\<open>False\<close>; a range that runs out returns \<^verbatim>\<open>None\<close>, which the caller's \<^verbatim>\<open>if\<close> takes
  for a failure.
\<close>

fun webhook_attempts ::
  "env \<Rightarrow> string \<Rightarrow> hit \<Rightarrow> nat \<Rightarrow> nat list \<Rightarrow> world \<Rightarrow> bool \<times> world" where
  "webhook_attempts e url h max_retries [] w = (False, w)"
| "webhook_attempts e url h max_retries (attempt # rest) w =
     (if webhook e (length (trace w)) url h then (True, emit (WebhookPost url h) w)
      else if attempt = max_retries then (False, emit (WebhookPost url h) w)
      else webhook_attempts e url h max_retries rest
             (emit (Sleep (1000 * 2 ^ attempt)) (emit (WebhookPost url h) w)))"

definition send_webhook :: "env \<Rightarrow> string \<Rightarrow> hit \<Rightarrow> world \<Rightarrow> bool \<times> world" where
  "send_webhook e url h w = webhook_attempts e url h 3 [1 ..< 3 + 1] w"

text \<open>
  \<^verbatim>\<open>extract_company\<close> can raise in one place: \<^verbatim>\<open>datetime.fromtimestamp(launched_at)\<close>, run
  when \<^verbatim>\<open>launched_at\<close> is truthy, inside a \<^verbatim>\<open>try\<close> that catches \<^verbatim>\<open>OSError\<close> and
  \<^verbatim>\<open>ValueError\<close> only. A string raises \<^verbatim>\<open>TypeError\<close>; an integer that does not fit the
  platform's \<^verbatim>\<open>time_t\<close> (64 bits here) raises \<^verbatim>\<open>OverflowError\<close>; an integer that fits but
  has no calendar date raises one of the two caught exceptions. The fields of the result
  are not modelled: the hit stands for the dictionary built from it.
\<close>

definition extract_company :: "hit \<Rightarrow> exc + hit" where
  "extract_company h =
     (let launched_at = get h ''launched_at''
      in if truthy launched_at
         then (case launched_at of
                 JStr s \<Rightarrow> Inl TypeError
               | JInt n \<Rightarrow> if n < - (2 ^ 63) \<or> 2 ^ 63 \<le> n then Inl OverflowError else Inr h
               | _ \<Rightarrow> Inr h)
         else Inr h)"

text \<open>\<^verbatim>\<open>build_payload\<close> adds the event tag and the clock reading, which cannot fail.\<close>

definition build_payload :: "hit \<Rightarrow> exc + hit" where
  "build_payload h = extract_company h"

text \<open>
  The loop of \<^verbatim>\<open>send_all_webhooks\<close>, with \<^verbatim>\<open>sent\<close> and \<^verbatim>\<open>failed\<close> as accumulators. An
  exception of \<^verbatim>\<open>build_payload\<close> leaves the loop and the function.
\<close>

fun send_loop ::
  "env \<Rightarrow> string \<Rightarrow> hit list \<Rightarrow> nat \<Rightarrow> hit list \<Rightarrow> world \<Rightarrow> (exc + nat \<times> hit list) \<times> world" where
  "send_loop e url [] sent failed w = (Inr (sent, failed), w)"
| "send_loop e url (h # rest) sent failed w =
     (case build_payload h of
        Inl x \<Rightarrow> (Inl x, w)
      | Inr payload \<Rightarrow>
          (case send_webhook e url payload w of
             (True, w1) \<Rightarrow> send_loop e url rest (sent + 1) failed (emit (Sleep 200) w1)
           | (False, w1) \<Rightarrow> send_loop e url rest sent (failed @ [h]) (emit (Sleep 200) w1)))"

definition send_all_webhooks ::
  "env \<Rightarrow> string \<Rightarrow> hit list \<Rightarrow> world \<Rightarrow> (exc + nat \<times> hit list) \<times> world" where
  "send_all_webhooks e url new_hits w = send_loop e url new_hits 0 [] w"

subsection \<open>Core detection logic\<close>

text \<open>
  \<^verbatim>\<open>seed\<close>. The list \<^verbatim>\<open>list(set(...))\<close> it returns is used by its callers only through
  \<^verbatim>\<open>set\<close>, \<^verbatim>\<open>len\<close> and \<^verbatim>\<open>sorted\<close>, so the model returns the set.
\<close>

definition seed :: "env \<Rightarrow> world \<Rightarrow> (exc + string set) \<times> world" where
  "seed e w =
     (case fetch_all_companies e w of
        (Inl x, w1) \<Rightarrow> (Inl x, w1)
      | (Inr all_hits, w1) \<Rightarrow>
          (case fetch_count e w1 of
             (Inl x, w2) \<Rightarrow> (Inl x, w2)
           | (Inr total_hits, w2) \<Rightarrow>
               (let ids = set (filter (\<lambda>kid. kid \<noteq> []) (map hit_id all_hits))
                in (Inr ids, save_state e ids total_hits w2))))"

text \<open>The last block of \<^verbatim>\<open>detect_new\<close> (``Fallback: Full batch-partitioned fetch'').\<close>

definition full_fetch ::
  "env \<Rightarrow> string set \<Rightarrow> int \<Rightarrow> world \<Rightarrow> (exc + hit list \<times> string set \<times> int) \<times> world" where
  "full_fetch e ids current_count w =
     (case fetch_all_companies e w of
        (Inl x, w1) \<Rightarrow> (Inl x, w1)
      | (Inr all_hits, w1) \<Rightarrow>
          (let all_ids = set (map hit_id all_hits);
               new_ids = all_ids - ids;
               new_hits = filter (\<lambda>h. hit_id h \<in> new_ids) all_hits
           in (Inr (new_hits, ids \<union> all_ids, current_count), w1)))"

definition stored_ids :: "state_json \<Rightarrow> string set" where
  "stored_ids state = set (map py_str (case known_ids state of None \<Rightarrow> [] | Some ks \<Rightarrow> ks))"

definition stored_count :: "state_json \<Rightarrow> int" where
  "stored_count state = (case total_count state of None \<Rightarrow> 0 | Some n \<Rightarrow> n)"

definition last_timestamp :: "state_json \<Rightarrow> int" where
  "last_timestamp state = (case last_run_timestamp state of None \<Rightarrow> 0 | Some t \<Rightarrow> t)"

definition detect_new ::
  "env \<Rightarrow> bool \<Rightarrow> world \<Rightarrow> (exc + hit list \<times> string set \<times> int) \<times> world" where
  "detect_new e force_full w =
     (case load_state w of
        Inl x \<Rightarrow> (Inl x, w)
      | Inr None \<Rightarrow>
          (case seed e w of
             (Inl x, w1) \<Rightarrow> (Inl x, w1)
           | (Inr ids, w1) \<Rightarrow> (Inr ([], ids, int (card ids)), w1))
      | Inr (Some state) \<Rightarrow>
          (case fetch_count e w of
             (Inl x, w1) \<Rightarrow> (Inl x, w1)
           | (Inr current_count, w1) \<Rightarrow>
               if current_count = stored_count state \<and> \<not> force_full
               then (Inr ([], stored_ids state, current_count), w1)
               else if \<not> force_full \<and> last_timestamp state > 0
               then
                 (case fetch_since e (last_timestamp state) w1 of
                    (Inl x, w2) \<Rightarrow> (Inl x, w2)
                  | (Inr recent_hits, w2) \<Rightarrow>
                      (let new_hits = filter (\<lambda>h. hit_id h \<notin> stored_ids state) recent_hits
                       in if new_hits \<noteq> []
                          then (Inr (new_hits, stored_ids state \<union> set (map hit_id new_hits),
                                     current_count), w2)
                          else if current_count > stored_count state
                          then full_fetch e (stored_ids state) current_count w2
                          else (Inr ([], stored_ids state, current_count), w2)))
               else full_fetch e (stored_ids state) current_count w1))"

subsection \<open>The command line\<close>

text \<open>
  The parsed arguments, with the two environment variables \<^verbatim>\<open>main\<close> reads next to them.
  The data directory is fixed: its two files are the ones of the \<open>world\<close>.
\<close>

record args =
  webhook_url_arg :: "string option"
  webhook_url_env :: "string option"
  dry_run :: bool
  seed_flag :: bool
  full_fetch_flag :: bool

text \<open>\<^verbatim>\<open>args.webhook_url or os.environ.get("WEBHOOK_URL", "")\<close>.\<close>

definition webhook_url :: "args \<Rightarrow> string" where
  "webhook_url a =
     (case webhook_url_arg a of
        Some u \<Rightarrow> if u \<noteq> [] then u else (case webhook_url_env a of None \<Rightarrow> [] | Some v \<Rightarrow> v)
      | None \<Rightarrow> (case webhook_url_env a of None \<Rightarrow> [] | Some v \<Rightarrow> v))"

text \<open>
  How the process ends: \<^verbatim>\<open>main\<close> returns, \<^verbatim>\<open>sys.exit(n)\<close> is called, or an exception
  reaches the top level.
\<close>

datatype outcome = Returned | SysExit nat | Uncaught exc

text \<open>The first block of \<^verbatim>\<open>main\<close> (``Retry any pending webhooks from a previous failed run'').\<close>

definition retry_pending :: "env \<Rightarrow> args \<Rightarrow> world \<Rightarrow> (exc + unit) \<times> world" where
  "retry_pending e a w =
     (if webhook_url a \<noteq> [] \<and> \<not> dry_run a
      then
        (case load_pending w of
           Inl x \<Rightarrow> (Inl x, w)
         | Inr None \<Rightarrow> (Inr (), w)
         | Inr (Some pending) \<Rightarrow>
             if pending \<noteq> []
             then
               (case send_all_webhooks e (webhook_url a) pending w of
                  (Inl x, w1) \<Rightarrow> (Inl x, w1)
                | (Inr (sent, failed), w1) \<Rightarrow>
                    if failed \<noteq> [] then (Inr (), save_pending failed w1)
                    else (Inr (), clear_pending w1))
             else (Inr (), w))
      else (Inr (), w))"

text \<open>The last block of \<^verbatim>\<open>main\<close> (``Deliver webhooks (one per company)'').\<close>

definition deliver :: "env \<Rightarrow> args \<Rightarrow> hit list \<Rightarrow> world \<Rightarrow> outcome \<times> world" where
  "deliver e a new_hits w =
     (case send_all_webhooks e (webhook_url a) new_hits w of
        (Inl x, w1) \<Rightarrow> (Uncaught x, w1)
      | (Inr (sent, failed), w1) \<Rightarrow>
          if failed \<noteq> [] then (SysExit 1, save_pending failed w1)
          else (Returned, clear_pending w1))"

text \<open>
  The loop of the dry run: \<^verbatim>\<open>log.debug("Payload: %s", json.dumps(build_payload(h)))\<close>
  builds the payload of every new hit, whatever the log level.
\<close>

fun log_payloads :: "hit list \<Rightarrow> exc + unit" where
  "log_payloads [] = Inr ()"
| "log_payloads (h # rest) =
     (case build_payload h of Inl x \<Rightarrow> Inl x | Inr payload \<Rightarrow> log_payloads rest)"

definition main :: "env \<Rightarrow> args \<Rightarrow> world \<Rightarrow> outcome \<times> world" where
  "main e a w =
     (case retry_pending e a w of
        (Inl x, w1) \<Rightarrow> (Uncaught x, w1)
      | (Inr _, w1) \<Rightarrow>
          if seed_flag a
          then
            (case seed e w1 of
               (Inl x, w2) \<Rightarrow> (Uncaught x, w2)
             | (Inr _, w2) \<Rightarrow> (Returned, w2))
          else
            (case detect_new e (full_fetch_flag a) w1 of
               (Inl RequestException, w2) \<Rightarrow> (SysExit 1, w2)
             | (Inl x, w2) \<Rightarrow> (Uncaught x, w2)
             | (Inr (new_hits, ids, current_count), w2) \<Rightarrow>
                 (let w3 = save_state e ids current_count w2
                  in if new_hits = [] then (Returned, w3)
                     else if dry_run a
                     then (case log_payloads new_hits of
                             Inl x \<Rightarrow> (Uncaught x, w3)
                           | Inr _ \<Rightarrow> (Returned, w3))
                     else if webhook_url a = [] then (Returned, w3)
                     else deliver e a new_hits w3)))"


subsection \<open>Vocabulary of the statements\<close>

text \<open>
  \<open>quiet w w'\<close>: the world \<open>w'\<close> differs from \<open>w\<close> by further events only. \<open>new_events\<close>
  are those events. A delivery of a hit was attempted between two worlds when a request
  for it is among the new events, and it succeeded when the sink accepted one of them.
\<close>

definition quiet :: "world \<Rightarrow> world \<Rightarrow> bool" where
  "quiet w w' \<longleftrightarrow>
     state_file w' = state_file w \<and> pending_file w' = pending_file w \<and> prefix (trace w) (trace w')"

definition new_events :: "world \<Rightarrow> world \<Rightarrow> event list" where
  "new_events w w' = drop (length (trace w)) (trace w')"

fun is_query :: "event \<Rightarrow> bool" where
  "is_query (AlgoliaPost index params) = True"
| "is_query _ = False"

definition attempted_in :: "string \<Rightarrow> hit \<Rightarrow> world \<Rightarrow> world \<Rightarrow> bool" where
  "attempted_in url h w w' \<longleftrightarrow> WebhookPost url h \<in> set (new_events w w')"

definition delivered_in :: "env \<Rightarrow> string \<Rightarrow> hit \<Rightarrow> world \<Rightarrow> world \<Rightarrow> bool" where
  "delivered_in e url h w w' \<longleftrightarrow>
     (\<exists>n \<in> {length (trace w) ..< length (trace w')}.
        trace w' ! n = WebhookPost url h \<and> webhook e n url h)"




subsection \<open>Scenarios\<close>

text \<open>
  Concrete inputs for the closed theorems below. \<open>hD\<close> carries an \<^verbatim>\<open>id\<close> and no
  \<^verbatim>\<open>objectID\<close>; \<open>hE\<close> a falsy \<^verbatim>\<open>objectID\<close> and a numeric \<^verbatim>\<open>id\<close>; \<open>hC2\<close> shares its id
  with \<open>hC\<close>; \<open>hN\<close> has neither key.
\<close>

definition hA :: hit where
  "hA = [(''objectID'', JStr ''A''), (''name'', JStr ''Alpha'')]"

definition hB :: hit where
  "hB = [(''objectID'', JStr ''B''), (''name'', JStr ''Beta'')]"

definition hC :: hit where
  "hC = [(''objectID'', JStr ''C''), (''name'', JStr ''Gamma'')]"

definition hD :: hit where
  "hD = [(''id'', JStr ''D''), (''name'', JStr ''Delta'')]"

definition hE :: hit where
  "hE = [(''objectID'', JInt 0), (''id'', JInt 17), (''name'', JStr ''Epsilon'')]"

definition hC2 :: hit where
  "hC2 = [(''objectID'', JStr ''C''), (''name'', JStr ''Gamma again'')]"

definition hN :: hit where
  "hN = [(''name'', JStr ''Nameless'')]"

text \<open>Two records whose payload cannot be built: a \<^verbatim>\<open>launched_at\<close> that is a string, and
  one beyond \<^verbatim>\<open>time_t\<close>.\<close>

definition hS :: hit where
  "hS = [(''objectID'', JStr ''S''), (''launched_at'', JStr ''2024-01-01'')]"

definition hF :: hit where
  "hF = [(''objectID'', JStr ''F''), (''launched_at'', JInt 100000000000000000000)]"

text \<open>
  A remote index that always answers: it reports \<open>count\<close> records in all and one batch,
  \<^verbatim>\<open>W21\<close>, returns \<open>recent\<close> to a query of the launch-date index and \<open>everything\<close>, the
  records of that batch, to a query of the production index.
\<close>

definition remote ::
  "int \<Rightarrow> hit list \<Rightarrow> hit list \<Rightarrow> nat \<Rightarrow> string \<Rightarrow> string \<Rightarrow> response option" where
  "remote count recent everything n index params =
     Some \<lparr> nbHits = Some count,
            hits = Some (if index = INDEX_BY_LAUNCH then recent else everything),
            facet_batch = Some [(''W21'', int (length everything))] \<rparr>"

text \<open>An environment with that remote and a sink that refuses exactly the hits of \<open>refused\<close>.\<close>

definition scenario :: "int \<Rightarrow> hit list \<Rightarrow> hit list \<Rightarrow> hit list \<Rightarrow> env" where
  "scenario count recent everything refused =
     \<lparr> algolia = remote count recent everything,
       webhook = (\<lambda>n url h. h \<notin> set refused),
       now = (\<lambda>n. 1700000100000000 + 1000 * int n) \<rparr>"

definition state_AB :: state_json where
  "state_AB = \<lparr> last_run_at = Some 1700000000000000, last_run_timestamp = Some 1700000000,
                total_count = Some 2, known_ids = Some [JStr ''A'', JStr ''B''],
                version = Some 1 \<rparr>"

definition world_AB :: world where
  "world_AB = \<lparr> state_file = Whole state_AB, pending_file = Absent, trace = [] \<rparr>"

definition world_first :: world where
  "world_first = \<lparr> state_file = Absent, pending_file = Absent, trace = [] \<rparr>"

text \<open>A live run and a dry run with a webhook URL from the environment, and a world in
  which the delivery of \<open>hD\<close> is pending from an earlier run.\<close>

definition args_live :: args where
  "args_live = \<lparr> webhook_url_arg = None, webhook_url_env = Some ''https://sink.example/hook'',
                 dry_run = False, seed_flag = False, full_fetch_flag = False \<rparr>"

definition args_dry :: args where
  "args_dry = \<lparr> webhook_url_arg = None, webhook_url_env = Some ''https://sink.example/hook'',
                dry_run = True, seed_flag = False, full_fetch_flag = False \<rparr>"

definition world_pending :: world where
  "world_pending = \<lparr> state_file = Whole state_AB, pending_file = Whole [hD], trace = [] \<rparr>"

definition world_pending_S :: world where
  "world_pending_S = \<lparr> state_file = Whole state_AB, pending_file = Whole [hS], trace = [] \<rparr>"

section \<open>Basic facts\<close>

subsection \<open>What each operation leaves alone\<close>

lemma emit_fields [simp]:
  "state_file (emit ev w) = state_file w"
  "pending_file (emit ev w) = pending_file w"
  "trace (emit ev w) = trace w @ [ev]"
  by (simp_all add: emit_def)

lemma pair_fst_snd: "fst p = a \<Longrightarrow> p = (a, snd p)"
  by (cases p) simp

lemma algolia_attempts_trace:
  "algolia_attempts e i p m as w = (r, w') \<Longrightarrow>
     \<exists>evs. trace w' = trace w @ evs \<and> set evs \<subseteq> insert (AlgoliaPost i p) (range Sleep)"
proof (induction as arbitrary: w)
  case Nil
  then show ?case by simp
next
  case (Cons attempt rest)
  show ?case
  proof (cases "algolia e (length (trace w)) i p")
    case (Some resp)
    with Cons.prems show ?thesis by auto
  next
    case None
    show ?thesis
    proof (cases "attempt = m")
      case True
      with None Cons.prems show ?thesis by auto
    next
      case False
      with None Cons.prems have
        "algolia_attempts e i p m rest
           (emit (Sleep (1000 * 2 ^ attempt)) (emit (AlgoliaPost i p) w)) = (r, w')"
        by simp
      from Cons.IH [OF this] obtain evs where
        "trace w' = trace w @ [AlgoliaPost i p, Sleep (1000 * 2 ^ attempt)] @ evs"
        "set evs \<subseteq> insert (AlgoliaPost i p) (range Sleep)"
        by auto
      then show ?thesis
        by (intro exI [of _ "[AlgoliaPost i p, Sleep (1000 * 2 ^ attempt)] @ evs"]) auto
    qed
  qed
qed

lemma fetch_count_trace:
  "fetch_count e w = (r, w') \<Longrightarrow>
     \<exists>evs. trace w' = trace w @ evs \<and>
       set evs \<subseteq> insert (AlgoliaPost INDEX_PRODUCTION ''hitsPerPage=0&facets=batch'') (range Sleep)"
  by (auto simp: fetch_count_def algolia_query_def split: prod.splits sum.splits
           dest: algolia_attempts_trace)

lemma full_fetch_new_unknown:
  "full_fetch e ids c w = (Inr (new_hits, ids', c'), w') \<Longrightarrow> h \<in> set new_hits \<Longrightarrow> hit_id h \<notin> ids"
  by (auto simp: full_fetch_def Let_def split: prod.splits sum.splits)

lemma full_fetch_result:
  "fetch_all_companies e w = (Inr all_hits, w') \<Longrightarrow>
   full_fetch e ids c w =
     (Inr (filter (\<lambda>h. hit_id h \<in> set (map hit_id all_hits) - ids) all_hits,
           ids \<union> set (map hit_id all_hits), c), w')"
  by (simp add: full_fetch_def)

lemma filter_none: "(\<forall>h \<in> set xs. \<not> P h) \<Longrightarrow> filter P xs = []"
  by (induction xs) auto

lemma full_fetch_cases:
  "full_fetch e ids c w = (Inr (new_hits, ids', c'), w') \<Longrightarrow>
     \<exists>fetched. fetch_all_companies e w = (Inr fetched, w')
        \<and> new_hits = filter (\<lambda>h. hit_id h \<notin> ids) fetched
        \<and> ids' = ids \<union> set (map hit_id fetched) \<and> c' = c"
  by (auto simp: full_fetch_def Let_def split: prod.splits sum.splits intro: filter_cong)

lemma known_union_filter:
  "ids \<union> set (map hit_id (filter (\<lambda>h. hit_id h \<notin> ids) xs)) = ids \<union> set (map hit_id xs)"
  by auto

lemma save_state_file:
  "state_file (save_state e ids c w) =
     Whole \<lparr> last_run_at = Some (now e (length (trace w))),
             last_run_timestamp = Some (unix_seconds (now e (length (trace w)))),
             total_count = Some c,
             known_ids = Some (map JStr (sorted_list_of_set ids)),
             version = Some STATE_VERSION \<rparr>"
  by (simp add: save_state_def save_state_steps_def run_steps_def open_state_w_def dump_state_def
        Let_def)

lemma save_state_other [simp]:
  "pending_file (save_state e ids c w) = pending_file w"
  "trace (save_state e ids c w) = trace w"
  by (simp_all add: save_state_def save_state_steps_def run_steps_def open_state_w_def
        dump_state_def Let_def)

lemma quiet_refl [simp]: "quiet w w"
  by (simp add: quiet_def)

lemma quiet_trans: "quiet w w1 \<Longrightarrow> quiet w1 w2 \<Longrightarrow> quiet w w2"
  by (auto simp: quiet_def prefix_def)

lemma quiet_emit [simp]: "quiet w (emit ev w)"
  by (simp add: quiet_def)
















lemma new_events_same [simp]: "new_events w w = []"
  by (simp add: new_events_def)

lemma new_events_emit [simp]: "new_events w (emit ev w) = [ev]"
  by (simp add: new_events_def)

lemma new_events_split:
  "quiet w w1 \<Longrightarrow> quiet w1 w2 \<Longrightarrow> new_events w w2 = new_events w w1 @ new_events w1 w2"
  by (auto simp: quiet_def prefix_def new_events_def)

lemma delivered_in_mono:
  assumes "delivered_in e url h w1 w2" and "quiet w w1" and "quiet w2 w3"
  shows "delivered_in e url h w w3"
proof -
  from assms(1) obtain n where n: "length (trace w1) \<le> n" "n < length (trace w2)"
      "trace w2 ! n = WebhookPost url h" "webhook e n url h"
    by (auto simp: delivered_in_def)
  from assms(2) have "length (trace w) \<le> length (trace w1)"
    by (auto simp: quiet_def prefix_def)
  moreover from assms(3) n(2) have "n < length (trace w3)" "trace w3 ! n = trace w2 ! n"
    by (auto simp: quiet_def prefix_def nth_append)
  ultimately show ?thesis using n by (auto simp: delivered_in_def)
qed

lemma delivered_in_emit:
  "webhook e (length (trace w)) url h \<Longrightarrow> delivered_in e url h w (emit (WebhookPost url h) w)"
  by (auto simp: delivered_in_def nth_append)

lemma webhook_attempts_inv:
  "webhook_attempts e url h m as w = (ok, w') \<Longrightarrow>
     quiet w w'
     \<and> (as \<noteq> [] \<longrightarrow> WebhookPost url h \<in> set (new_events w w'))
     \<and> (\<forall>ev \<in> set (new_events w w'). \<not> is_query ev)
     \<and> (ok \<longrightarrow> delivered_in e url h w w')"
proof (induction as arbitrary: w)
  case Nil
  then show ?case by simp
next
  case (Cons attempt rest)
  let ?w1 = "emit (WebhookPost url h) w"
  show ?case
  proof (cases "webhook e (length (trace w)) url h")
    case True
    with Cons.prems show ?thesis by (auto simp: delivered_in_emit)
  next
    case refused: False
    show ?thesis
    proof (cases "attempt = m")
      case True
      with refused Cons.prems show ?thesis by auto
    next
      case False
      let ?w2 = "emit (Sleep (1000 * 2 ^ attempt)) ?w1"
      from False refused Cons.prems have "webhook_attempts e url h m rest ?w2 = (ok, w')"
        by simp
      from Cons.IH [OF this] have ih: "quiet ?w2 w'"
          "\<forall>ev \<in> set (new_events ?w2 w'). \<not> is_query ev"
          "ok \<longrightarrow> delivered_in e url h ?w2 w'"
        by auto
      have q2: "quiet w ?w2" by (blast intro: quiet_trans quiet_emit)
      have ne: "new_events w w' = [WebhookPost url h, Sleep (1000 * 2 ^ attempt)] @ new_events ?w2 w'"
        using new_events_split [OF q2 ih(1)] new_events_split [of w ?w1 ?w2] by simp
      from ih q2 ne show ?thesis
        by (auto intro: quiet_trans delivered_in_mono [OF _ q2 quiet_refl])
    qed
  qed
qed

lemma send_webhook_inv:
  "send_webhook e url h w = (ok, w') \<Longrightarrow>
     quiet w w'
     \<and> attempted_in url h w w'
     \<and> (\<forall>ev \<in> set (new_events w w'). \<not> is_query ev)
     \<and> (ok \<longrightarrow> delivered_in e url h w w')"
  unfolding send_webhook_def attempted_in_def
  by (drule webhook_attempts_inv) (simp add: upt_rec)




lemma send_loop_quiet:
  "send_loop e url hs sent failed w = (r, w') \<Longrightarrow>
     quiet w w' \<and> (\<forall>ev \<in> set (new_events w w'). \<not> is_query ev)"
proof (induction hs arbitrary: sent failed w)
  case Nil
  then show ?case by simp
next
  case (Cons h rest)
  show ?case
  proof (cases "build_payload h")
    case (Inl x)
    with Cons.prems show ?thesis by simp
  next
    case (Inr payload)
    obtain ok w1 where sw: "send_webhook e url payload w = (ok, w1)"
      by (cases "send_webhook e url payload w")
    from send_webhook_inv [OF sw] have h1: "quiet w w1"
        "\<forall>ev \<in> set (new_events w w1). \<not> is_query ev"
      by auto
    let ?w2 = "emit (Sleep 200) w1"
    let ?sent = "if ok then sent + 1 else sent"
    let ?failed = "if ok then failed else failed @ [h]"
    from Inr sw Cons.prems have "send_loop e url rest ?sent ?failed ?w2 = (r, w')"
      by (cases ok) simp_all
    from Cons.IH [OF this] have ih: "quiet ?w2 w'"
        "\<forall>ev \<in> set (new_events ?w2 w'). \<not> is_query ev"
      by auto
    have q2: "quiet w ?w2" "quiet w w'"
      using h1(1) ih(1) by (blast intro: quiet_trans quiet_emit)+
    have "new_events w w' = new_events w w1 @ [Sleep 200] @ new_events ?w2 w'"
      using new_events_split [OF q2(1) ih(1)] new_events_split [OF h1(1), of ?w2] by simp
    with h1(2) ih(2) q2(2) show ?thesis by auto
  qed
qed



lemma send_all_webhooks_quiet:
  "send_all_webhooks e url hs w = (r, w') \<Longrightarrow>
     quiet w w' \<and> (\<forall>ev \<in> set (new_events w w'). \<not> is_query ev)"
  unfolding send_all_webhooks_def by (rule send_loop_quiet)





lemma seed_ids: "seed e w = (Inr ids, w') \<Longrightarrow> finite ids \<and> [] \<notin> ids"
  by (auto simp: seed_def Let_def split: prod.splits sum.splits)



lemma full_fetch_ids:
  "full_fetch e ids c w = (Inr (new_hits, ids', c'), w') \<Longrightarrow>
     (finite ids \<longrightarrow> finite ids') \<and> hit_id ` set new_hits \<subseteq> ids' \<and> ids \<subseteq> ids'"
  by (auto simp: full_fetch_def Let_def split: prod.splits sum.splits)

lemma finite_stored_ids [simp]: "finite (stored_ids state)"
  unfolding stored_ids_def by (rule finite_set)



lemma detect_new_ids:
  "detect_new e ff w = (Inr (new_hits, ids, c), w') \<Longrightarrow>
     finite ids \<and> hit_id ` set new_hits \<subseteq> ids"
  by (cases "state_file w")
     (auto simp: detect_new_def load_state_def Let_def split: prod.splits sum.splits if_splits
           dest: seed_ids dest!: full_fetch_ids)

lemma detect_new_excludes_known:
  "state_file w = Whole state \<Longrightarrow> detect_new e ff w = (Inr (new_hits, ids, c), w') \<Longrightarrow>
     h \<in> set new_hits \<Longrightarrow> hit_id h \<notin> stored_ids state"
  by (auto simp: detect_new_def load_state_def Let_def
           split: prod.splits sum.splits if_splits dest: full_fetch_new_unknown)

lemma stored_ids_saved:
  assumes "finite ids" and "state_file (save_state e ids c w) = Whole st"
  shows "stored_ids st = ids \<and> stored_count st = c"
proof -
  from assms(2) have "known_ids st = Some (map JStr (sorted_list_of_set ids))"
      "total_count st = Some c"
    by (auto simp: save_state_file)
  with assms(1) show ?thesis
    by (simp add: stored_ids_def stored_count_def comp_def)
qed

lemma deliver_effects:
  "deliver e a new_hits w = (out, w') \<Longrightarrow>
     state_file w' = state_file w \<and> prefix (trace w) (trace w')"
  by (auto simp: deliver_def save_pending_def clear_pending_def quiet_def
           split: prod.splits sum.splits if_splits dest!: send_all_webhooks_quiet)



lemma send_all_nothing [simp]: "send_all_webhooks e url [] w = (Inr (0, []), w)"
  by (simp add: send_all_webhooks_def)


lemma retry_nothing_pending:
  "pending_file w = Absent \<Longrightarrow> retry_pending e a w = (Inr (), w)"
  by (simp add: retry_pending_def load_pending_def)




lemma bit_length_numeral [simp]:
  "bit_length (numeral k) = Suc (bit_length (numeral k div 2))"
  by (subst bit_length.simps) simp

lemma bit_length_0 [simp]: "bit_length 0 = 0"
  by (subst bit_length.simps) simp

lemma bit_length_1 [simp]: "bit_length (Suc 0) = Suc 0"
  by (subst bit_length.simps) (simp add: bit_length.simps [of 0])

subsection \<open>The scenarios, evaluated\<close>

lemma hit_ids [simp]:
  "hit_id hA = ''A''" "hit_id hB = ''B''" "hit_id hC = ''C''" "hit_id hD = ''D''"
  "hit_id hE = ''17''" "hit_id hC2 = ''C''" "hit_id hN = []"
  by (simp_all add: hit_id_def get_def py_or_def hA_def hB_def hC_def hD_def hE_def hC2_def hN_def
        str_int_def digits.simps digit_char_def)

lemma scenario_query:
  "algolia_query (scenario c r a b) i p w =
     (Inr \<lparr> nbHits = Some c, hits = Some (if i = INDEX_BY_LAUNCH then r else a),
            facet_batch = Some [(''W21'', int (length a))] \<rparr>, emit (AlgoliaPost i p) w)"
  by (simp add: algolia_query_def scenario_def remote_def upt_rec)

lemma scenario_fetch_count:
  "fetch_count (scenario c r a b) w =
     (Inr c, emit (AlgoliaPost INDEX_PRODUCTION ''hitsPerPage=0&facets=batch'') w)"
  by (simp add: fetch_count_def scenario_query)

lemma scenario_fetch_since:
  "fetch_since (scenario c r a b) t w =
     (Inr r, emit (AlgoliaPost INDEX_BY_LAUNCH
        (''hitsPerPage=1000&numericFilters=['' @ [CHR 0x22] @ ''launched_at>'' @ str_int t
           @ [CHR 0x22] @ '']'')) w)"
  by (simp add: fetch_since_def scenario_query)

lemma scenario_fetch_all:
  "fetch_all_companies (scenario c r a b) w =
     (Inr a, emit (Sleep 100) (emit (AlgoliaPost INDEX_PRODUCTION
        (''hitsPerPage=1000&facetFilters=['' @ [CHR 0x22] @ ''batch:W21'' @ [CHR 0x22] @ '']''))
        (emit (AlgoliaPost INDEX_PRODUCTION ''hitsPerPage=0&facets=batch'') w)))"
  by (simp add: fetch_all_companies_def fetch_batch_names_def scenario_query
        INDEX_PRODUCTION_def INDEX_BY_LAUNCH_def)

lemma stored_AB [simp]:
  "stored_ids state_AB = {''A'', ''B''}" "stored_count state_AB = 2"
  "last_timestamp state_AB = 1700000000"
  by (simp_all add: stored_ids_def stored_count_def last_timestamp_def state_AB_def)

lemma detect_window:
  "fst (detect_new (scenario 3 [hA, hC] [hA, hB, hC] b) False world_AB)
     = Inr ([hC], {''A'', ''B'', ''C''}, 3)"
  by (simp add: detect_new_def load_state_def world_AB_def scenario_fetch_count
        scenario_fetch_since insert_commute)

lemma detect_duplicates:
  "fst (detect_new (scenario 3 [hC, hC2] [hA, hB, hC] []) False world_AB)
     = Inr ([hC, hC2], {''A'', ''B'', ''C''}, 3)"
  by (simp add: detect_new_def load_state_def world_AB_def scenario_fetch_count
        scenario_fetch_since insert_commute)

lemma detect_duplicates_full:
  "fst (detect_new (scenario 3 [] [hA, hB, hC, hC2] []) False world_AB)
     = Inr ([hC, hC2], {''A'', ''B'', ''C''}, 3)"
  by (simp add: detect_new_def load_state_def world_AB_def scenario_fetch_count
        scenario_fetch_since scenario_fetch_all full_fetch_def insert_commute)

lemma webhook_url_args [simp]:
  "webhook_url args_live = ''https://sink.example/hook''"
  "webhook_url args_dry = ''https://sink.example/hook''"
  by (simp_all add: webhook_url_def args_live_def args_dry_def)

lemma args_flags [simp]:
  "dry_run args_live = False" "seed_flag args_live = False" "full_fetch_flag args_live = False"
  "dry_run args_dry = True" "seed_flag args_dry = False" "full_fetch_flag args_dry = False"
  by (simp_all add: args_live_def args_dry_def)

lemma hits_differ [simp]: "hC \<noteq> hD" "hD \<noteq> hC"
  by (simp_all add: hC_def hD_def)

lemma scenario_send_ok:
  "h \<notin> set b \<Longrightarrow>
     send_webhook (scenario c r a b) url h w = (True, emit (WebhookPost url h) w)"
  by (simp add: send_webhook_def scenario_def upt_rec)


lemma payloads [simp]:
  "build_payload hA = Inr hA" "build_payload hB = Inr hB" "build_payload hC = Inr hC"
  "build_payload hD = Inr hD" "build_payload hS = Inl TypeError"
  "build_payload hF = Inl OverflowError"
  by (simp_all add: build_payload_def extract_company_def get_def hA_def hB_def hC_def hD_def
        hS_def hF_def)


lemma scenario_send_one_ok:
  "build_payload h = Inr h \<Longrightarrow> h \<notin> set b \<Longrightarrow>
     fst (send_all_webhooks (scenario c r a b) url [h] w) = Inr (1, [])"
  by (simp add: send_all_webhooks_def scenario_send_ok)

lemma world_pending_S_files [simp]:
  "state_file world_pending_S = Whole state_AB" "pending_file world_pending_S = Whole [hS]"
  "trace world_pending_S = []"
  by (simp_all add: world_pending_S_def)

lemma world_pending_files [simp]:
  "state_file world_pending = Whole state_AB" "pending_file world_pending = Whole [hD]"
  "trace world_pending = []"
  by (simp_all add: world_pending_def)





lemma detect_again_forced:
  "state_file w = Whole st \<Longrightarrow> stored_ids st = {''A'', ''B'', ''C''} \<Longrightarrow>
     fst (detect_new (scenario 4 r [hA, hB, hC] b) True w) = Inr ([], {''A'', ''B'', ''C''}, 4)"
  by (auto simp add: detect_new_def load_state_def scenario_fetch_count scenario_fetch_all
        full_fetch_def)


lemma unix_seconds_examples:
  "unix_seconds 1700000100004000 = 1700000100"
  "unix_seconds 20000000000999999 = 20000000001"
  "unix_seconds (- 1500000) = - 1"
  by (simp_all add: unix_seconds_def float_seconds_def round_half_even_def Let_def)

lemma sorted_ABC: "sorted_list_of_set {''A'', ''B'', ''C''} = [''A'', ''B'', ''C'']"
  by (simp add: sorted_list_of_set_insert_remove)

section \<open>The claims\<close>

subsection \<open>Reconciliation engine\<close>

text \<open>
  \<^bold>\<open>C3.\<close> With a persisted state, if the count query returns the stored total and no full
  fetch is forced, \<open>detect_new\<close> returns no new hits and the stored ids unchanged, and ends in
  the world the count query left: the requests sent are those of the count query alone, so
  neither the window query nor the full fetch is made, whatever they would have returned.
\<close>

theorem unchanged_count_returns_nothing_new:
  assumes "state_file w = Whole state"
      and "fetch_count e w = (Inr c, w1)"
      and "c = stored_count state"
    shows "detect_new e False w = (Inr ([], stored_ids state, c), w1)
           \<and> (\<exists>evs. trace w1 = trace w @ evs \<and>
                set evs \<subseteq> insert (AlgoliaPost INDEX_PRODUCTION ''hitsPerPage=0&facets=batch'')
                                 (range Sleep))"
  using assms fetch_count_trace [of e w "Inr c" w1]
  by (simp add: detect_new_def load_state_def)

text \<open>
  The stored count is 2 and the remote reports 2, although the window query would return
  the unknown \<open>hC\<close>.
\<close>

theorem unchanged_count_returns_nothing_new_witness:
  "fst (detect_new (scenario 2 [hC] [hA, hB, hC] []) False world_AB) = Inr ([], {''A'', ''B''}, 2)"
proof -
  let ?e = "scenario 2 [hC] [hA, hB, hC] []"
  have 1: "state_file world_AB = Whole state_AB" by (simp add: world_AB_def)
  have 2: "fetch_count ?e world_AB = (Inr 2, snd (fetch_count ?e world_AB))"
    by (simp add: scenario_fetch_count)
  have 3: "2 = stored_count state_AB" by simp
  from unchanged_count_returns_nothing_new [OF 1 2 3] show ?thesis by simp
qed

text \<open>
  \<^bold>\<open>C4.\<close> With a persisted state, no hit that \<open>detect_new\<close> returns as new has an id that is
  in the stored known ids, on the window path and on the full-fetch path alike.
\<close>

theorem known_id_never_new:
  assumes "state_file w = Whole state"
      and "detect_new e force_full w = (Inr (new_hits, ids, c), w')"
      and "h \<in> set new_hits"
    shows "hit_id h \<notin> stored_ids state"
  using assms by (rule detect_new_excludes_known)

text \<open>The window query returns the known \<open>hA\<close> and the unknown \<open>hC\<close>; only \<open>hC\<close> is new.\<close>

theorem known_id_never_new_witness:
  "hC \<in> set [hC] \<and> hit_id hC \<notin> stored_ids state_AB"
proof -
  let ?e = "scenario 3 [hA, hC] [hA, hB, hC] []"
  have 1: "state_file world_AB = Whole state_AB" by (simp add: world_AB_def)
  have 2: "detect_new ?e False world_AB =
             (Inr ([hC], {''A'', ''B'', ''C''}, 3), snd (detect_new ?e False world_AB))"
    by (rule pair_fst_snd [OF detect_window])
  have 3: "hC \<in> set [hC]" by simp
  from known_id_never_new [OF 1 2 3] 3 show ?thesis by simp
qed

text \<open>
  \<^bold>\<open>C5.\<close> The fallback block is reached in three ways: a forced full fetch, a changed count
  with no positive watermark, or an increased count after a window query that returned only
  known ids. Whenever it is reached and the full fetch succeeds, \<open>detect_new\<close> returns
  exactly the fetched hits whose id is in \<open>all_ids - known_ids\<close>, in fetch order, and the
  updated set \<open>known_ids \<union> all_ids\<close>, with the count of the count query.
\<close>

theorem fallback_returns_set_difference:
  assumes st: "state_file w = Whole state"
      and fc: "fetch_count e w = (Inr c, w1)"
      and path: "force_full \<and> wF = w1
           \<or> \<not> force_full \<and> c \<noteq> stored_count state \<and> last_timestamp state \<le> 0 \<and> wF = w1
           \<or> \<not> force_full \<and> stored_count state < c \<and> 0 < last_timestamp state \<and>
              (\<exists>recent. fetch_since e (last_timestamp state) w1 = (Inr recent, wF) \<and>
                 (\<forall>h \<in> set recent. hit_id h \<in> stored_ids state))"
      and fa: "fetch_all_companies e wF = (Inr all_hits, w2)"
    shows "detect_new e force_full w =
             (Inr (filter (\<lambda>h. hit_id h \<in> set (map hit_id all_hits) - stored_ids state) all_hits,
                   stored_ids state \<union> set (map hit_id all_hits), c), w2)"
proof -
  note ff = full_fetch_result [OF fa, of "stored_ids state" c]
  from path consider
      (forced) "force_full" "wF = w1"
    | (no_watermark) "\<not> force_full" "c \<noteq> stored_count state" "last_timestamp state \<le> 0" "wF = w1"
    | (window_empty) recent where "\<not> force_full" "stored_count state < c" "0 < last_timestamp state"
        "fetch_since e (last_timestamp state) w1 = (Inr recent, wF)"
        "\<forall>h \<in> set recent. hit_id h \<in> stored_ids state"
    by blast
  then show ?thesis
  proof cases
    case forced
    with st fc ff show ?thesis by (simp add: detect_new_def load_state_def)
  next
    case no_watermark
    with st fc ff show ?thesis by (simp add: detect_new_def load_state_def)
  next
    case window_empty
    from window_empty(5) have "filter (\<lambda>h. hit_id h \<notin> stored_ids state) recent = []"
      by (intro filter_none) simp
    with window_empty st fc ff show ?thesis by (simp add: detect_new_def load_state_def)
  qed
qed

text \<open>
  Known ids \<open>{A, B}\<close>, a full fetch returning \<open>A, B, C, D\<close>: the new hits have the ids
  \<open>C\<close> and \<open>D\<close>, and the updated set is \<open>{A, B, C, D}\<close>.
\<close>

theorem fallback_returns_set_difference_witness:
  "fst (detect_new (scenario 4 [hA] [hA, hB, hC, hD] []) False world_AB)
     = Inr ([hC, hD], {''A'', ''B'', ''C'', ''D''}, 4)
   \<and> map hit_id [hC, hD] = [''C'', ''D'']"
proof -
  let ?e = "scenario 4 [hA] [hA, hB, hC, hD] []"
  let ?w1 = "snd (fetch_count ?e world_AB)"
  let ?wF = "snd (fetch_since ?e 1700000000 ?w1)"
  let ?w2 = "snd (fetch_all_companies ?e ?wF)"
  have 1: "state_file world_AB = Whole state_AB" by (simp add: world_AB_def)
  have 2: "fetch_count ?e world_AB = (Inr 4, ?w1)" by (simp add: scenario_fetch_count)
  have 3: "False \<and> ?wF = ?w1
           \<or> \<not> False \<and> 4 \<noteq> stored_count state_AB \<and> last_timestamp state_AB \<le> 0 \<and> ?wF = ?w1
           \<or> \<not> False \<and> stored_count state_AB < 4 \<and> 0 < last_timestamp state_AB \<and>
              (\<exists>recent. fetch_since ?e (last_timestamp state_AB) ?w1 = (Inr recent, ?wF) \<and>
                 (\<forall>h \<in> set recent. hit_id h \<in> stored_ids state_AB))"
    by (simp add: scenario_fetch_since)
  have 4: "fetch_all_companies ?e ?wF = (Inr [hA, hB, hC, hD], ?w2)"
    by (simp add: scenario_fetch_all)
  from fallback_returns_set_difference [OF 1 2 3 4]
  have "fst (detect_new ?e False world_AB) =
          Inr (filter (\<lambda>h. hit_id h \<in> set (map hit_id [hA, hB, hC, hD]) - stored_ids state_AB)
                 [hA, hB, hC, hD],
               stored_ids state_AB \<union> set (map hit_id [hA, hB, hC, hD]), 4)"
    by (simp only: fst_conv)
  then show ?thesis by (simp add: insert_commute)
qed

text \<open>
  \<^bold>\<open>C7\<close>, as stated, fails: \<open>detect_new\<close> has no step that merges records sharing an id.
  A window query returning \<open>hC\<close> and \<open>hC2\<close>, both with the unknown id \<open>C\<close>, surfaces both.
\<close>

theorem duplicate_ids_surface_twice:
  "fst (detect_new (scenario 3 [hC, hC2] [hA, hB, hC] []) False world_AB)
     = Inr ([hC, hC2], {''A'', ''B'', ''C''}, 3)
   \<and> \<not> distinct (map hit_id [hC, hC2])"
  using detect_duplicates by simp

text \<open>
  \<^bold>\<open>C7\<close>, amended. With a persisted state, the new hits are either none, with the known
  ids unchanged, or the hits of one fetch (the window query or the full fetch) whose id is
  not in the stored set, every one of them and in fetch order, so records that share an
  unknown id are all returned; only the updated id set, being a set, holds each id once.
\<close>

theorem new_hits_keep_every_unknown_record:
  assumes "state_file w = Whole state"
      and "detect_new e force_full w = (Inr (new_hits, ids, c), w')"
    shows "new_hits = [] \<and> ids = stored_ids state
           \<or> (\<exists>fetched wF.
                (fetch_since e (last_timestamp state) wF = (Inr fetched, w')
                 \<or> fetch_all_companies e wF = (Inr fetched, w'))
                \<and> new_hits = filter (\<lambda>h. hit_id h \<notin> stored_ids state) fetched
                \<and> ids = stored_ids state \<union> set (map hit_id fetched))"
proof (cases "fetch_count e w")
  case (Pair r w1)
  with assms obtain cur where r: "r = Inr cur"
    by (cases r) (auto simp: detect_new_def load_state_def)
  note fc = Pair [unfolded r]
  let ?known = "stored_ids state"
  show ?thesis
  proof (cases "cur = stored_count state \<and> \<not> force_full")
    case True
    with assms fc show ?thesis by (auto simp: detect_new_def load_state_def)
  next
    case changed: False
    show ?thesis
    proof (cases "\<not> force_full \<and> 0 < last_timestamp state")
      case False
      with changed assms fc have "full_fetch e ?known cur w1 = (Inr (new_hits, ids, c), w')"
        by (auto simp: detect_new_def load_state_def split: if_splits)
      from full_fetch_cases [OF this] show ?thesis by blast
    next
      case True
      obtain r2 w2 where fs: "fetch_since e (last_timestamp state) w1 = (r2, w2)"
        by (cases "fetch_since e (last_timestamp state) w1")
      with True changed assms fc obtain recent where r2: "r2 = Inr recent"
        by (cases r2) (auto simp: detect_new_def load_state_def)
      let ?new = "filter (\<lambda>h. hit_id h \<notin> ?known) recent"
      show ?thesis
      proof (cases "?new = []")
        case False
        with True changed assms fc fs r2
        have "new_hits = ?new" "ids = ?known \<union> set (map hit_id ?new)" "w' = w2"
          by (auto simp: detect_new_def load_state_def)
        with fs r2 show ?thesis
          by (auto simp only: known_union_filter)
      next
        case empty: True
        show ?thesis
        proof (cases "stored_count state < cur")
          case False
          with empty True changed assms fc fs r2 show ?thesis
            by (auto simp: detect_new_def load_state_def)
        next
          case True
          with empty \<open>\<not> force_full \<and> 0 < last_timestamp state\<close> changed assms fc fs r2
          have "full_fetch e ?known cur w2 = (Inr (new_hits, ids, c), w')"
            by (auto simp: detect_new_def load_state_def)
          from full_fetch_cases [OF this] show ?thesis by blast
        qed
      qed
    qed
  qed
qed

text \<open>The full fetch returns \<open>hC\<close> and \<open>hC2\<close>; both are in the result.\<close>

theorem new_hits_keep_every_unknown_record_witness:
  "[hC, hC2] = [] \<and> {''A'', ''B'', ''C''} = stored_ids state_AB
   \<or> (\<exists>fetched wF.
        (fetch_since (scenario 3 [] [hA, hB, hC, hC2] []) (last_timestamp state_AB) wF
           = (Inr fetched, snd (detect_new (scenario 3 [] [hA, hB, hC, hC2] []) False world_AB))
         \<or> fetch_all_companies (scenario 3 [] [hA, hB, hC, hC2] []) wF
           = (Inr fetched, snd (detect_new (scenario 3 [] [hA, hB, hC, hC2] []) False world_AB)))
        \<and> [hC, hC2] = filter (\<lambda>h. hit_id h \<notin> stored_ids state_AB) fetched
        \<and> {''A'', ''B'', ''C''} = stored_ids state_AB \<union> set (map hit_id fetched))"
proof -
  let ?e = "scenario 3 [] [hA, hB, hC, hC2] []"
  have 1: "state_file world_AB = Whole state_AB" by (simp add: world_AB_def)
  have 2: "detect_new ?e False world_AB =
             (Inr ([hC, hC2], {''A'', ''B'', ''C''}, 3), snd (detect_new ?e False world_AB))"
    by (rule pair_fst_snd [OF detect_duplicates_full])
  show ?thesis by (rule new_hits_keep_every_unknown_record [OF 1 2])
qed

text \<open>
  \<^bold>\<open>C6.\<close> The record \<open>hN\<close> has no derivable id: \<open>hit_id hN\<close> is the empty string. On a
  first run \<open>seed\<close> drops the empty id. With a persisted state that does not hold the empty
  string, the window path and the forced full fetch both return \<open>hN\<close> as a new hit and add
  the empty string to the known ids.
\<close>

theorem idless_record_reported_as_new:
  "hit_id hN = []
   \<and> fst (detect_new (scenario 3 [hN] [hA, hB, hN] []) False world_AB)
       = Inr ([hN], {[], ''A'', ''B''}, 3)
   \<and> fst (detect_new (scenario 3 [hN] [hA, hB, hN] []) True world_AB)
       = Inr ([hN], {[], ''A'', ''B''}, 3)
   \<and> fst (detect_new (scenario 3 [hN] [hA, hB, hN] []) False world_first)
       = Inr ([], {''A'', ''B''}, 2)"
proof -
  have "fst (detect_new (scenario 3 [hN] [hA, hB, hN] []) False world_AB)
          = Inr ([hN], {[], ''A'', ''B''}, 3)"
    by (simp add: detect_new_def load_state_def world_AB_def scenario_fetch_count
          scenario_fetch_since insert_commute)
  moreover
  have "fst (detect_new (scenario 3 [hN] [hA, hB, hN] []) True world_AB)
          = Inr ([hN], {[], ''A'', ''B''}, 3)"
    by (simp add: detect_new_def load_state_def world_AB_def scenario_fetch_count
          scenario_fetch_all full_fetch_def insert_commute)
  moreover
  have "fst (detect_new (scenario 3 [hN] [hA, hB, hN] []) False world_first)
          = Inr ([], {''A'', ''B''}, 2)"
    by (simp add: detect_new_def load_state_def world_first_def seed_def scenario_fetch_count
          scenario_fetch_all insert_commute Let_def)
  ultimately show ?thesis by simp
qed

text \<open>
  \<^bold>\<open>C2.\<close> A first run in which the remote reports 3 records while the enumeration by
  batch returns two: \<open>detect_new\<close> returns no new hit and the two fetched ids, \<open>seed\<close> has
  saved the count 3 that \<open>fetch_count\<close> returned, but the count \<open>detect_new\<close> returns is 2,
  the number of ids, and \<open>main\<close> saves the state again with that count.
\<close>

theorem first_run_count_is_number_of_ids:
  "fst (detect_new (scenario 3 [] [hA, hB] []) False world_first) = Inr ([], {''A'', ''B''}, 2)
   \<and> (case state_file (snd (detect_new (scenario 3 [] [hA, hB] []) False world_first)) of
        Whole st \<Rightarrow> total_count st = Some 3
      | _ \<Rightarrow> False)
   \<and> (case state_file (snd (main (scenario 3 [] [hA, hB] []) args_live world_first)) of
        Whole st \<Rightarrow> total_count st = Some 2
      | _ \<Rightarrow> False)"
proof -
  let ?e = "scenario 3 [] [hA, hB] []"
  have d: "fst (detect_new ?e False world_first) = Inr ([], {''A'', ''B''}, 2)
   \<and> (case state_file (snd (detect_new ?e False world_first)) of
        Whole st \<Rightarrow> total_count st = Some 3
      | _ \<Rightarrow> False)"
    by (simp add: detect_new_def load_state_def world_first_def seed_def scenario_fetch_count
        scenario_fetch_all insert_commute save_state_file Let_def)
  have rp: "retry_pending ?e args_live world_first = (Inr (), world_first)"
    by (rule retry_nothing_pending) (simp add: world_first_def)
  have "main ?e args_live world_first =
          (Returned, save_state ?e {''A'', ''B''} 2 (snd (detect_new ?e False world_first)))"
    using d by (simp add: main_def rp case_prod_beta)
  with d show ?thesis by (simp add: save_state_file)
qed

subsection \<open>State store\<close>

text \<open>
  \<^bold>\<open>C10\<close>, as stated, fails: \<open>save_state\<close> writes no temporary file and replaces nothing.
  It opens the state file itself for writing; a process that dies after that first step
  leaves a file that holds neither the previous record nor the new one.
\<close>

theorem crash_during_save_loses_state:
  "state_file world_AB = Whole state_AB
   \<and> state_file (run_steps (take 1 (save_state_steps (scenario 3 [hC] [hA, hB, hC] [])
                                       {''A'', ''B'', ''C''} 3 world_AB)) world_AB) = Torn"
  by (simp add: world_AB_def save_state_steps_def run_steps_def open_state_w_def Let_def)

text \<open>
  \<^bold>\<open>C10\<close>, amended. At a clock reading that \<^verbatim>\<open>datetime\<close> represents, \<open>save_state\<close>
  overwrites the state file in place, in two steps:
  opening it for writing, after which it is torn, and dumping the record. A save that
  completes leaves the whole new record: the clock reading as \<open>last_run_at\<close>, the
  seconds that \<^verbatim>\<open>int(now.timestamp())\<close> makes of it as \<open>last_run_timestamp\<close>, the given
  count, the sorted ids and version 1. The pending file is not touched.
\<close>

theorem save_state_overwrites_in_place:
  assumes "representable (now e (length (trace w)))"
  shows "length (save_state_steps e ids c w) = 2
   \<and> state_file (run_steps (take 1 (save_state_steps e ids c w)) w) = Torn
   \<and> state_file (save_state e ids c w) =
       Whole \<lparr> last_run_at = Some (now e (length (trace w))),
               last_run_timestamp = Some (unix_seconds (now e (length (trace w)))),
               total_count = Some c,
               known_ids = Some (map JStr (sorted_list_of_set ids)),
               version = Some 1 \<rparr>
   \<and> pending_file (save_state e ids c w) = pending_file w
   \<and> trace (save_state e ids c w) = trace w"
  by (simp add: save_state_file STATE_VERSION_def)
     (simp add: save_state_steps_def run_steps_def open_state_w_def Let_def)

text \<open>The record saved at the clock reading 1700000100 seconds after the epoch.\<close>

theorem save_state_overwrites_in_place_witness:
  "state_file (save_state (scenario 3 [hC] [hA, hB, hC] []) {''A'', ''B'', ''C''} 3 world_AB) =
     Whole \<lparr> last_run_at = Some 1700000100000000,
             last_run_timestamp = Some 1700000100,
             total_count = Some 3,
             known_ids = Some [JStr ''A'', JStr ''B'', JStr ''C''],
             version = Some 1 \<rparr>"
proof -
  let ?e = "scenario 3 [hC] [hA, hB, hC] []"
  have t: "now ?e (length (trace world_AB)) = 1700000100000000"
    by (simp add: scenario_def world_AB_def)
  have 1: "representable (now ?e (length (trace world_AB)))"
    unfolding t by (simp add: representable_def)
  have u: "unix_seconds 1700000100000000 = 1700000100"
    by (simp add: unix_seconds_def float_seconds_def round_half_even_def Let_def)
  from save_state_overwrites_in_place [OF 1, of "{''A'', ''B'', ''C''}" 3]
  show ?thesis unfolding t u sorted_ABC by simp
qed

subsection \<open>Order of saving and delivering\<close>

text \<open>
  \<^bold>\<open>C9.\<close> In a run that reaches the delivery of new hits, \<open>main\<close> is the delivery started
  in the world that \<open>save_state\<close> left: the state file then holds the updated ids, which
  include the ids of the new hits, and the count. Delivery never writes the state file.
  Hence in any world whose state file is the saved one, whatever happened to the trace and
  the pending file when the process died, and whatever the remote answers, a later
  \<open>detect_new\<close> returns no hit with the id of one of those new hits.
\<close>

theorem state_saved_before_delivery:
  assumes rp: "retry_pending e a w = (Inr u, w1)"
      and ns: "\<not> seed_flag a"
      and dn: "detect_new e (full_fetch_flag a) w1 = (Inr (new_hits, ids, c), w2)"
      and ne: "new_hits \<noteq> []"
      and live: "\<not> dry_run a" "webhook_url a \<noteq> []"
    shows "main e a w = deliver e a new_hits (save_state e ids c w2)
           \<and> (\<exists>st. state_file (save_state e ids c w2) = Whole st
                  \<and> stored_ids st = ids \<and> stored_count st = c)
           \<and> hit_id ` set new_hits \<subseteq> ids
           \<and> state_file (snd (main e a w)) = state_file (save_state e ids c w2)
           \<and> (\<forall>e' ff w3 new_hits' ids' c' w4.
                 state_file w3 = state_file (save_state e ids c w2) \<longrightarrow>
                 detect_new e' ff w3 = (Inr (new_hits', ids', c'), w4) \<longrightarrow>
                 hit_id ` set new_hits' \<inter> hit_id ` set new_hits = {})"
proof -
  let ?saved = "save_state e ids c w2"
  have m: "main e a w = deliver e a new_hits ?saved"
    using assms by (simp add: main_def)
  from detect_new_ids [OF dn] have fin: "finite ids" and sub: "hit_id ` set new_hits \<subseteq> ids"
    by auto
  obtain st where st: "state_file ?saved = Whole st"
    by (simp add: save_state_file)
  from stored_ids_saved [OF fin st] have sid: "stored_ids st = ids" "stored_count st = c"
    by auto
  have keep: "state_file (snd (main e a w)) = state_file ?saved"
    unfolding m using deliver_effects [of e a new_hits ?saved] by (simp add: prod_eq_iff)
  have again: "hit_id ` set new_hits' \<inter> hit_id ` set new_hits = {}"
    if "state_file w3 = state_file ?saved"
       "detect_new e' ff w3 = (Inr (new_hits', ids', c'), w4)"
    for e' ff w3 new_hits' ids' c' w4
  proof -
    from that(1) st have "state_file w3 = Whole st" by simp
    from detect_new_excludes_known [OF this that(2)] sid(1) sub show ?thesis by auto
  qed
  from m st sid sub keep again show ?thesis by blast
qed

text \<open>
  The window query returns the unknown \<open>hC\<close>; the state saved before its delivery holds
  \<open>C\<close>, and a forced full fetch from the world the run left finds nothing new.
\<close>

theorem state_saved_before_delivery_witness:
  "main (scenario 3 [hA, hC] [hA, hB, hC] []) args_live world_AB
     = deliver (scenario 3 [hA, hC] [hA, hB, hC] []) args_live [hC]
         (save_state (scenario 3 [hA, hC] [hA, hB, hC] []) {''A'', ''B'', ''C''} 3
            (snd (detect_new (scenario 3 [hA, hC] [hA, hB, hC] []) False world_AB)))
   \<and> hit_id hC \<in> {''A'', ''B'', ''C''}
   \<and> fst (detect_new (scenario 4 [hC] [hA, hB, hC] []) True
            (snd (main (scenario 3 [hA, hC] [hA, hB, hC] []) args_live world_AB)))
       = Inr ([], {''A'', ''B'', ''C''}, 4)"
proof -
  let ?e = "scenario 3 [hA, hC] [hA, hB, hC] []"
  let ?saved = "save_state ?e {''A'', ''B'', ''C''} 3 (snd (detect_new ?e False world_AB))"
  have 1: "retry_pending ?e args_live world_AB = (Inr (), world_AB)"
    by (rule retry_nothing_pending) (simp add: world_AB_def)
  have 2: "\<not> seed_flag args_live" by simp
  have 3: "detect_new ?e (full_fetch_flag args_live) world_AB =
             (Inr ([hC], {''A'', ''B'', ''C''}, 3), snd (detect_new ?e False world_AB))"
    using pair_fst_snd [OF detect_window] by simp
  have 4: "[hC] \<noteq> []" by simp
  have 5: "\<not> dry_run args_live" "webhook_url args_live \<noteq> []" by simp_all
  from state_saved_before_delivery [OF 1 2 3 4 5]
  obtain st where m: "main ?e args_live world_AB = deliver ?e args_live [hC] ?saved"
      and st: "state_file ?saved = Whole st" "stored_ids st = {''A'', ''B'', ''C''}"
      and sub: "hit_id ` set [hC] \<subseteq> {''A'', ''B'', ''C''}"
      and keep: "state_file (snd (main ?e args_live world_AB)) = state_file ?saved"
    by blast
  from keep st(1) have "state_file (snd (main ?e args_live world_AB)) = Whole st"
    by (simp only:)
  from detect_again_forced [OF this st(2)]
  have "fst (detect_new (scenario 4 [hC] [hA, hB, hC] []) True
               (snd (main ?e args_live world_AB)))
          = Inr ([], {''A'', ''B'', ''C''}, 4)" .
  with m sub show ?thesis by simp
qed

subsection \<open>Delivery queue\<close>




subsection \<open>Exit codes\<close>




end
